theory Spec2Isabelle
  imports Main
begin

section \<open>Keyboard events, chords and settings\<close>

text \<open>
  The fields of a DOM keyboard event that the scripts read or set. The init members
  \<^verbatim>\<open>which\<close>, \<^verbatim>\<open>view\<close> and \<^verbatim>\<open>isFakeKeySwapEvent\<close> of
  \<^verbatim>\<open>createFakeEvent\<close> are left out: no function of the repository reads them.
\<close>

record KeyboardEvent =
  key :: string
  code :: string
  keyCode :: nat
  shiftKey :: bool
  altKey :: bool
  ctrlKey :: bool
  metaKey :: bool
  bubbles :: bool
  cancelable :: bool
  composed :: bool

text \<open>A chord is the string the settings hold: the scripts compare it with \<^verbatim>\<open>===\<close>.\<close>

record settings =
  sendAction :: string
  newlineAction :: string

text \<open>part_000, lines 7-10 (also background.js, lines 8-11 and 50-53).\<close>

definition DEFAULT_SETTINGS :: settings where
  "DEFAULT_SETTINGS = \<lparr>sendAction = ''Enter'', newlineAction = ''Shift+Enter''\<rparr>"

text \<open>part_000, lines 267-270: the second copy of the content script has other defaults.\<close>

definition DEFAULT_SETTINGS2 :: settings where
  "DEFAULT_SETTINGS2 = \<lparr>sendAction = ''Alt+Enter'', newlineAction = ''Enter''\<rparr>"

text \<open>background.js, line 121: the canonical ordered list of chords.\<close>

definition availableOptions :: "string list" where
  "availableOptions = [''Enter'', ''Shift+Enter'', ''Alt+Enter'', ''Ctrl+Enter'']"

section \<open>Classification of an event against a chord\<close>

text \<open>part_000, lines 24-39.\<close>

definition isKeyMatch :: "KeyboardEvent \<Rightarrow> string \<Rightarrow> bool" where
  "isKeyMatch event action =
     (if key event \<noteq> ''Enter'' then False
      else if action = ''Enter'' then
        \<not> shiftKey event \<and> \<not> altKey event \<and> \<not> ctrlKey event \<and> \<not> metaKey event
      else if action = ''Shift+Enter'' then
        shiftKey event \<and> \<not> altKey event \<and> \<not> ctrlKey event \<and> \<not> metaKey event
      else if action = ''Alt+Enter'' then
        altKey event \<and> \<not> shiftKey event \<and> \<not> ctrlKey event \<and> \<not> metaKey event
      else if action = ''Ctrl+Enter'' then
        ctrlKey event \<and> \<not> shiftKey event \<and> \<not> altKey event \<and> \<not> metaKey event
      else False)"

text \<open>part_000, lines 281-294: the second copy has no case for Ctrl+Enter.\<close>

definition isKeyMatch2 :: "KeyboardEvent \<Rightarrow> string \<Rightarrow> bool" where
  "isKeyMatch2 event action =
     (if key event \<noteq> ''Enter'' then False
      else if action = ''Enter'' then
        \<not> shiftKey event \<and> \<not> altKey event \<and> \<not> ctrlKey event \<and> \<not> metaKey event
      else if action = ''Shift+Enter'' then
        shiftKey event \<and> \<not> altKey event \<and> \<not> ctrlKey event \<and> \<not> metaKey event
      else if action = ''Alt+Enter'' then
        altKey event \<and> \<not> shiftKey event \<and> \<not> ctrlKey event \<and> \<not> metaKey event
      else False)"

text \<open>
  The modifier bitset (shift, alt, ctrl, meta) of an event, and the bitset that a chord
  name stands for. The second follows the wording of the specification (a chord is the
  Enter key plus the modifiers its name lists); it is what \<open>isKeyMatch\<close> is compared with.
\<close>

definition modifierBits :: "KeyboardEvent \<Rightarrow> bool \<times> bool \<times> bool \<times> bool" where
  "modifierBits event = (shiftKey event, altKey event, ctrlKey event, metaKey event)"

definition chordBits :: "string \<Rightarrow> (bool \<times> bool \<times> bool \<times> bool) option" where
  "chordBits action =
     (if action = ''Enter'' then Some (False, False, False, False)
      else if action = ''Shift+Enter'' then Some (True, False, False, False)
      else if action = ''Alt+Enter'' then Some (False, True, False, False)
      else if action = ''Ctrl+Enter'' then Some (False, False, True, False)
      else None)"

section \<open>Synthetic events\<close>

text \<open>part_000, lines 47-80.\<close>

definition createFakeEvent :: "string \<Rightarrow> KeyboardEvent" where
  "createFakeEvent targetAction =
     (let eventOptions =
        \<lparr>key = ''Enter'', code = ''Enter'', keyCode = 13,
         shiftKey = False, altKey = False, ctrlKey = False, metaKey = False,
         bubbles = True, cancelable = True, composed = True\<rparr>
      in if targetAction = ''Shift+Enter'' then eventOptions\<lparr>shiftKey := True\<rparr>
         else if targetAction = ''Alt+Enter'' then eventOptions\<lparr>altKey := True\<rparr>
         else if targetAction = ''Ctrl+Enter'' then eventOptions\<lparr>ctrlKey := True\<rparr>
         else eventOptions)"

text \<open>part_000, lines 302-330.\<close>

definition createFakeEvent2 :: "string \<Rightarrow> KeyboardEvent" where
  "createFakeEvent2 targetAction =
     (let eventOptions =
        \<lparr>key = ''Enter'', code = ''Enter'', keyCode = 13,
         shiftKey = False, altKey = False, ctrlKey = False, metaKey = False,
         bubbles = True, cancelable = True, composed = True\<rparr>
      in if targetAction = ''Shift+Enter'' then eventOptions\<lparr>shiftKey := True\<rparr>
         else if targetAction = ''Alt+Enter'' then eventOptions\<lparr>altKey := True\<rparr>
         else eventOptions)"

text \<open>content.js, lines 28-34: members that the init dictionary omits take their defaults.\<close>

definition fakeShiftEnterEvent :: KeyboardEvent where
  "fakeShiftEnterEvent =
     \<lparr>key = ''Enter'', code = ''Enter'', keyCode = 0,
      shiftKey = True, altKey = False, ctrlKey = False, metaKey = False,
      bubbles = True, cancelable = True, composed = False\<rparr>"

section \<open>The host page's send control\<close>

record button =
  button_id :: nat
  disabled :: bool

text \<open>
  What the three \<^verbatim>\<open>document.querySelector\<close> calls of the handlers return on the
  page at hand: the data-testid selector, the aria-label selector, the structural selector.
\<close>

record page =
  byTestId :: "button option"
  byAriaLabel :: "button option"
  byStructure :: "button option"

text \<open>part_000, lines 147-149 and 392-394: \<^verbatim>\<open>a || b || c\<close> on elements.\<close>

definition findSendButton :: "page \<Rightarrow> button option" where
  "findSendButton pg =
     (case byTestId pg of
        Some b \<Rightarrow> Some b
      | None \<Rightarrow> (case byAriaLabel pg of Some b \<Rightarrow> Some b | None \<Rightarrow> byStructure pg))"

section \<open>What a handler does to an event\<close>

text \<open>
  A timer task is the callback given to \<^verbatim>\<open>setTimeout\<close>: \<open>DispatchFake a\<close> builds the
  synthetic event of chord \<open>a\<close> and dispatches it on the target of the event at hand.
\<close>

datatype task = DispatchFake string

datatype effect =
    PreventDefault
  | StopImmediatePropagation
  | Click button
  | SetTimeout nat task
  | DispatchEvent KeyboardEvent

text \<open>
  The result of one run of the handler of the first copy: the calls it made, in order,
  and the value of \<^verbatim>\<open>isProcessingFakeEvent\<close> when it returns.
\<close>

record outcome =
  effects :: "effect list"
  guardFlag :: bool

definition passThrough :: "bool \<Rightarrow> outcome" where
  "passThrough processing = \<lparr>effects = [], guardFlag = processing\<rparr>"

text \<open>part_000, lines 151-153 and 396-397.\<close>

definition clickIfEnabled :: "button option \<Rightarrow> effect list" where
  "clickIfEnabled sendButton =
     (case sendButton of
        Some b \<Rightarrow> (if \<not> disabled b then [Click b] else [])
      | None \<Rightarrow> [])"

text \<open>part_000, lines 159-177, on the locals \<^verbatim>\<open>shouldPreventDefault\<close> and \<^verbatim>\<open>targetAction\<close>.\<close>

definition convertNewline :: "bool \<Rightarrow> string option \<Rightarrow> bool \<Rightarrow> outcome" where
  "convertNewline shouldPreventDefault targetAction processing =
     (case targetAction of
        Some a \<Rightarrow>
          (if shouldPreventDefault then
             \<lparr>effects = [PreventDefault, StopImmediatePropagation, SetTimeout 10 (DispatchFake a)],
              guardFlag = True\<rparr>
           else passThrough processing)
      | None \<Rightarrow> passThrough processing)"

text \<open>
  part_000, lines 107-178: the handler closure. It reads the module variables
  \<^verbatim>\<open>currentSettings\<close> and \<^verbatim>\<open>isProcessingFakeEvent\<close> when it runs.
\<close>

definition keyHandler :: "settings \<Rightarrow> bool \<Rightarrow> page \<Rightarrow> KeyboardEvent \<Rightarrow> outcome" where
  "keyHandler currentSettings processing pg event =
     (if key event \<noteq> ''Enter'' then passThrough processing
      else if processing then passThrough processing
      else if isKeyMatch event (newlineAction currentSettings) then
        (if newlineAction currentSettings = ''Shift+Enter'' then passThrough processing
         else convertNewline True (Some ''Shift+Enter'') processing)
      else if isKeyMatch event (sendAction currentSettings) then
        (if sendAction currentSettings = ''Enter'' then passThrough processing
         else \<lparr>effects = [PreventDefault, StopImmediatePropagation]
                         @ clickIfEnabled (findSendButton pg),
               guardFlag = processing\<rparr>)
      else convertNewline False None processing)"

text \<open>part_000, lines 354-408: the handler of the second copy, which has no guard flag.\<close>

definition remapTail2 :: "bool \<Rightarrow> string option \<Rightarrow> page \<Rightarrow> effect list" where
  "remapTail2 shouldPreventDefault targetAction pg =
     (case targetAction of
        Some a \<Rightarrow>
          (if shouldPreventDefault then
             [PreventDefault, StopImmediatePropagation]
             @ (if a = ''Enter'' then
                  (case findSendButton pg of
                     Some b \<Rightarrow>
                       (if \<not> disabled b then [Click b]
                        else [SetTimeout 10 (DispatchFake a)])
                   | None \<Rightarrow> [SetTimeout 10 (DispatchFake a)])
                else [SetTimeout 10 (DispatchFake a)])
           else [])
      | None \<Rightarrow> [])"

definition keyHandler2 :: "settings \<Rightarrow> page \<Rightarrow> KeyboardEvent \<Rightarrow> effect list" where
  "keyHandler2 currentSettings pg event =
     (if key event \<noteq> ''Enter'' then []
      else if isKeyMatch2 event (newlineAction currentSettings) then
        (if newlineAction currentSettings = ''Enter''
         then remapTail2 True (Some ''Shift+Enter'') pg
         else remapTail2 False None pg)
      else if isKeyMatch2 event (sendAction currentSettings) then
        (if sendAction currentSettings \<noteq> ''Enter''
         then remapTail2 True (Some ''Enter'') pg
         else remapTail2 False None pg)
      else remapTail2 False None pg)"

text \<open>content.js, lines 17-40: the handler of the script that has no settings.\<close>

definition enterKeyHandler :: "KeyboardEvent \<Rightarrow> effect list" where
  "enterKeyHandler e =
     (if key e = ''Enter'' \<and> \<not> shiftKey e \<and> \<not> altKey e
      then [PreventDefault, StopImmediatePropagation, DispatchEvent fakeShiftEnterEvent]
      else [])"

section \<open>Following the synthetic events\<close>

text \<open>The chord of the synthetic event that a run of a handler scheduled, if it scheduled one.\<close>

fun scheduledFake :: "effect list \<Rightarrow> string option" where
  "scheduledFake [] = None"
| "scheduledFake (SetTimeout d (DispatchFake a) # es) = Some a"
| "scheduledFake (e # es) = scheduledFake es"

text \<open>The event that a run of a handler dispatched itself, if it dispatched one.\<close>

fun dispatchedEvent :: "effect list \<Rightarrow> KeyboardEvent option" where
  "dispatchedEvent [] = None"
| "dispatchedEvent (DispatchEvent e # es) = Some e"
| "dispatchedEvent (e # es) = dispatchedEvent es"

text \<open>
  content.js, line 38: \<^verbatim>\<open>e.target.dispatchEvent\<close> runs the capture listener of the
  editor again, inside the handler. \<open>deliver\<close> is the whole cascade that one event
  starts: the calls of the first run, then those of the run on the event it dispatched,
  and so on; \<open>None\<close> if the cascade never ends.
\<close>

partial_function (option) deliver :: "KeyboardEvent \<Rightarrow> effect list option" where
  "deliver e =
     (case dispatchedEvent (enterKeyHandler e) of
        None \<Rightarrow> Some (enterKeyHandler e)
      | Some e' \<Rightarrow>
          Option.bind (deliver e') (\<lambda>nested. Some (enterKeyHandler e @ nested)))"

text \<open>
  part_000, lines 403-406: the timer dispatches the synthetic event on the same target, so
  the handler of the second copy runs on it as on any event. \<open>cascade2\<close> is the sequence
  of handler runs that one event starts, each run with the calls it made.
\<close>

partial_function (option) cascade2 ::
    "settings \<Rightarrow> page \<Rightarrow> KeyboardEvent \<Rightarrow> effect list list option" where
  "cascade2 currentSettings pg e =
     (case scheduledFake (keyHandler2 currentSettings pg e) of
        None \<Rightarrow> Some [keyHandler2 currentSettings pg e]
      | Some a \<Rightarrow>
          Option.bind (cascade2 currentSettings pg (createFakeEvent2 a))
            (\<lambda>later. Some (keyHandler2 currentSettings pg e # later)))"

text \<open>
  part_000, lines 165-176: the first copy raises the flag before it sets the timer; the
  timer dispatches the synthetic event (the handler runs on it with the flag as it is
  then) and sets a second timer that lowers the flag. \<open>cascade\<close> is the sequence of
  handler runs that one event starts when nothing else happens in between, with the
  flag at the end.
\<close>

partial_function (option) cascade ::
    "settings \<Rightarrow> page \<Rightarrow> bool \<Rightarrow> KeyboardEvent \<Rightarrow> (effect list list \<times> bool) option" where
  "cascade currentSettings pg processing e =
     (let out = keyHandler currentSettings processing pg e in
      case scheduledFake (effects out) of
        None \<Rightarrow> Some ([effects out], guardFlag out)
      | Some a \<Rightarrow>
          Option.bind (cascade currentSettings pg (guardFlag out) (createFakeEvent a))
            (\<lambda>later. Some (effects out # fst later, False)))"

section \<open>The settings store\<close>

text \<open>
  \<^verbatim>\<open>chrome.storage.sync\<close> is the browser's store, a map from keys to values; the
  scripts store strings. Called with an object, \<^verbatim>\<open>get\<close> returns, for each key of the
  object, the stored value, or the object's own value when the store has none. Both
  calls may fail: the first argument says whether the call succeeds.
\<close>

type_synonym store = "string \<rightharpoonup> string"

datatype storageError = StorageError

definition storage_get :: "bool \<Rightarrow> settings \<Rightarrow> store \<Rightarrow> storageError + settings" where
  "storage_get ok defaults st =
     (if ok then
        Inr \<lparr>sendAction = (case st ''sendAction'' of Some v \<Rightarrow> v | None \<Rightarrow> sendAction defaults),
             newlineAction =
               (case st ''newlineAction'' of Some v \<Rightarrow> v | None \<Rightarrow> newlineAction defaults)\<rparr>
      else Inl StorageError)"

definition storage_set :: "bool \<Rightarrow> settings \<Rightarrow> store \<Rightarrow> storageError + store" where
  "storage_set ok s st =
     (if ok then Inr (st(''sendAction'' \<mapsto> sendAction s, ''newlineAction'' \<mapsto> newlineAction s))
      else Inl StorageError)"

text \<open>JavaScript's \<^verbatim>\<open>!v\<close> on a string: only the empty string is falsy.\<close>

definition falsy :: "string \<Rightarrow> bool" where
  "falsy v = (v = [])"

section \<open>The background script\<close>

text \<open>
  background.js, lines 17-32. The result is the store after the listener has run, and
  whether it called \<^verbatim>\<open>set\<close>.
\<close>

definition onInstalled :: "string \<Rightarrow> bool \<Rightarrow> bool \<Rightarrow> store \<Rightarrow> store \<times> bool" where
  "onInstalled reason getOk setOk st =
     (if reason = ''install'' \<or> reason = ''update'' then
        (case storage_get getOk DEFAULT_SETTINGS st of
           Inl err \<Rightarrow> (st, False)
         | Inr existingSettings \<Rightarrow>
             (if falsy (sendAction existingSettings) \<or> falsy (newlineAction existingSettings)
              then (case storage_set setOk DEFAULT_SETTINGS st of
                      Inl err \<Rightarrow> (st, True)
                    | Inr st' \<Rightarrow> (st', True))
              else (st, False)))
      else (st, False))"

section \<open>The content script's state and the editor elements\<close>

text \<open>
  An element of the document, with what the scripts read and write on it: its classes,
  the listeners the script added to it (event type, function, capture flag), the property
  \<^verbatim>\<open>keySwapHandler\<close> and the data attribute \<^verbatim>\<open>keySwapAttached\<close>. A function object
  is a number: every run of \<^verbatim>\<open>attachKeyHandler\<close> creates a new closure, and
  \<^verbatim>\<open>removeEventListener\<close> compares functions by identity.
\<close>

record element =
  classes :: "string list"
  listeners :: "(string \<times> nat \<times> bool) list"
  keySwapHandler :: "nat option"
  keySwapAttached :: "string option"

text \<open>
  The module variables of the content script, the elements of the document (in document
  order) and the number of the next closure.
\<close>

record cstate =
  currentSettings :: settings
  isProcessingFakeEvent :: bool
  document :: "element list"
  nextHandler :: nat

record message =
  msg_type :: string
  msg_settings :: settings

text \<open>The selector \<^verbatim>\<open>.ProseMirror\<close>.\<close>

definition isProseMirror :: "element \<Rightarrow> bool" where
  "isProseMirror el = (''ProseMirror'' \<in> set (classes el))"

text \<open>The DOM ignores a listener that is already there, and removes the one that matches.\<close>

definition addEventListener :: "string \<Rightarrow> nat \<Rightarrow> bool \<Rightarrow> element \<Rightarrow> element" where
  "addEventListener ty h capture el =
     (if (ty, h, capture) \<in> set (listeners el) then el
      else el\<lparr>listeners := listeners el @ [(ty, h, capture)]\<rparr>)"

definition removeEventListener :: "string \<Rightarrow> nat \<Rightarrow> bool \<Rightarrow> element \<Rightarrow> element" where
  "removeEventListener ty h capture el = el\<lparr>listeners := remove1 (ty, h, capture) (listeners el)\<rparr>"

text \<open>part_000, lines 86-94.\<close>

definition removeExistingHandler :: "element \<Rightarrow> element" where
  "removeExistingHandler proseEditor =
     (let el = (case keySwapHandler proseEditor of
                  Some h \<Rightarrow> (removeEventListener ''keydown'' h True proseEditor)\<lparr>keySwapHandler := None\<rparr>
                | None \<Rightarrow> proseEditor)
      in el\<lparr>keySwapAttached := Some ''false''\<rparr>)"

text \<open>part_000, lines 102-188; \<open>h\<close> is the closure \<^verbatim>\<open>keyHandler\<close> that the call creates.\<close>

definition attachKeyHandler :: "nat \<Rightarrow> element \<Rightarrow> element" where
  "attachKeyHandler h proseEditor =
     (let el = removeExistingHandler proseEditor;
          el = el\<lparr>keySwapHandler := Some h\<rparr>;
          el = addEventListener ''keydown'' h True el
      in el\<lparr>keySwapAttached := Some ''true''\<rparr>)"

text \<open>part_000, lines 336-341 and 349-418: the second copy.\<close>

definition removeExistingHandler2 :: "element \<Rightarrow> element" where
  "removeExistingHandler2 proseEditor =
     (case keySwapHandler proseEditor of
        Some h \<Rightarrow> (removeEventListener ''keydown'' h True proseEditor)\<lparr>keySwapHandler := None\<rparr>
      | None \<Rightarrow> proseEditor)"

definition attachKeyHandler2 :: "nat \<Rightarrow> element \<Rightarrow> element" where
  "attachKeyHandler2 h proseEditor =
     (let el = removeExistingHandler2 proseEditor;
          el = el\<lparr>keySwapHandler := Some h\<rparr>;
          el = addEventListener ''keydown'' h True el
      in el\<lparr>keySwapAttached := Some ''true''\<rparr>)"

text \<open>
  \<^verbatim>\<open>querySelectorAll('.ProseMirror').forEach\<close>: the callback runs on every matching
  element, in document order; \<open>f\<close> gets the number of the next closure and says whether
  it created one.
\<close>

fun forEachEditor ::
    "(nat \<Rightarrow> element \<Rightarrow> element \<times> bool) \<Rightarrow> nat \<Rightarrow> element list \<Rightarrow> element list \<times> nat" where
  "forEachEditor f n [] = ([], n)"
| "forEachEditor f n (el # els) =
     (if isProseMirror el then
        (case f n el of
           (el', created) \<Rightarrow>
             (case forEachEditor f (if created then Suc n else n) els of
                (els', n') \<Rightarrow> (el' # els', n')))
      else (case forEachEditor f n els of (els', n') \<Rightarrow> (el # els', n')))"

text \<open>\<^verbatim>\<open>querySelector('.ProseMirror')\<close> followed by a change of the element found, if any.\<close>

fun onFirstEditor :: "(element \<Rightarrow> element) \<Rightarrow> element list \<Rightarrow> element list" where
  "onFirstEditor f [] = []"
| "onFirstEditor f (el # els) =
     (if isProseMirror el then f el # els else el # onFirstEditor f els)"

text \<open>part_000, lines 207-217.\<close>

definition tryAttachHandler :: "cstate \<Rightarrow> cstate" where
  "tryAttachHandler st =
     (case forEachEditor
             (\<lambda>h proseEditor.
                if keySwapAttached proseEditor = None \<or> keySwapAttached proseEditor = Some []
                   \<or> keySwapAttached proseEditor = Some ''false''
                then (attachKeyHandler h proseEditor, True)
                else (proseEditor, False))
             (nextHandler st) (document st) of
        (els, n) \<Rightarrow> st\<lparr>document := els, nextHandler := n\<rparr>)"

text \<open>part_000, lines 222-244.\<close>

definition onMessage :: "message \<Rightarrow> cstate \<Rightarrow> cstate" where
  "onMessage msg st =
     (if msg_type msg = ''SETTINGS_UPDATED'' then
        (case forEachEditor
                (\<lambda>h proseEditor. (attachKeyHandler h (removeExistingHandler proseEditor), True))
                (nextHandler st) (document st) of
           (els, n) \<Rightarrow>
             st\<lparr>currentSettings := msg_settings msg, isProcessingFakeEvent := False,
                document := els, nextHandler := n\<rparr>)
      else st)"

text \<open>
  part_000, lines 437-445. Closure numbers only have to be new: the number is used up
  also when no closure is created.
\<close>

definition tryAttachHandler2 :: "cstate \<Rightarrow> cstate" where
  "tryAttachHandler2 st =
     st\<lparr>document :=
          onFirstEditor
            (\<lambda>proseEditor.
               if keySwapAttached proseEditor = None \<or> keySwapAttached proseEditor = Some []
               then attachKeyHandler2 (nextHandler st) proseEditor
               else proseEditor)
            (document st),
        nextHandler := Suc (nextHandler st)\<rparr>"

text \<open>part_000, lines 450-465.\<close>

definition onMessage2 :: "message \<Rightarrow> cstate \<Rightarrow> cstate" where
  "onMessage2 msg st =
     (if msg_type msg = ''SETTINGS_UPDATED'' then
        st\<lparr>currentSettings := msg_settings msg,
           document :=
             onFirstEditor
               (\<lambda>proseEditor.
                  attachKeyHandler2 (nextHandler st) (proseEditor\<lparr>keySwapAttached := Some ''false''\<rparr>))
               (document st),
           nextHandler := Suc (nextHandler st)\<rparr>
      else st)"

text \<open>part_000, lines 193-201.\<close>

definition loadSettings :: "bool \<Rightarrow> store \<Rightarrow> cstate \<Rightarrow> cstate" where
  "loadSettings getOk sto st =
     (case storage_get getOk DEFAULT_SETTINGS sto of
        Inr result \<Rightarrow> st\<lparr>currentSettings := result\<rparr>
      | Inl err \<Rightarrow> st\<lparr>currentSettings := DEFAULT_SETTINGS\<rparr>)"

text \<open>part_000, lines 423-431: the second copy reads and falls back with its own defaults.\<close>

definition loadSettings2 :: "bool \<Rightarrow> store \<Rightarrow> cstate \<Rightarrow> cstate" where
  "loadSettings2 getOk sto st =
     (case storage_get getOk DEFAULT_SETTINGS2 sto of
        Inr result \<Rightarrow> st\<lparr>currentSettings := result\<rparr>
      | Inl err \<Rightarrow> st\<lparr>currentSettings := DEFAULT_SETTINGS2\<rparr>)"

text \<open>
  A keydown event that reaches an element runs the element's keydown listeners in the
  order they were added; \<^verbatim>\<open>stopImmediatePropagation\<close> keeps the later ones from
  running. Every listener the first copy adds is a closure of \<open>keyHandler\<close>.
\<close>

fun runListeners ::
    "settings \<Rightarrow> page \<Rightarrow> KeyboardEvent \<Rightarrow> (string \<times> nat \<times> bool) list \<Rightarrow> bool \<Rightarrow> outcome" where
  "runListeners cs pg ev [] processing = passThrough processing"
| "runListeners cs pg ev (l # ls) processing =
     (if fst l \<noteq> ''keydown'' then runListeners cs pg ev ls processing
      else
        (let out = keyHandler cs processing pg ev in
         if StopImmediatePropagation \<in> set (effects out) then out
         else (let rest = runListeners cs pg ev ls (guardFlag out)
               in \<lparr>effects = effects out @ effects rest, guardFlag = guardFlag rest\<rparr>)))"

definition keydownOn :: "cstate \<Rightarrow> page \<Rightarrow> element \<Rightarrow> KeyboardEvent \<Rightarrow> outcome" where
  "keydownOn st pg el ev =
     runListeners (currentSettings st) pg ev (listeners el) (isProcessingFakeEvent st)"

text \<open>
  The state that the content script keeps about an element is sound when the listeners
  on the element are exactly the closure recorded in \<^verbatim>\<open>keySwapHandler\<close>, and that
  closure exists already.
\<close>

definition recorded :: "nat \<Rightarrow> element \<Rightarrow> bool" where
  "recorded n el =
     (case keySwapHandler el of
        None \<Rightarrow> listeners el = []
      | Some h \<Rightarrow> listeners el = [(''keydown'', h, True)] \<and> h < n)"

definition sound :: "cstate \<Rightarrow> bool" where
  "sound st = list_all (recorded (nextHandler st)) (document st)"

text \<open>
  An element was bound anew between the closures \<open>lo\<close> and \<open>hi\<close> when its only listener
  is the capture keydown closure recorded in \<^verbatim>\<open>keySwapHandler\<close>, created in between.
\<close>

definition rebound :: "nat \<Rightarrow> nat \<Rightarrow> element \<Rightarrow> bool" where
  "rebound lo hi el =
     (case keySwapHandler el of
        None \<Rightarrow> False
      | Some h \<Rightarrow> listeners el = [(''keydown'', h, True)] \<and> lo \<le> h \<and> h < hi)"

section \<open>The settings popup\<close>

text \<open>
  A select control: its options and its value. Setting the value to a string that is no
  option leaves no option selected, and the value then reads as the empty string. The
  markup of the popup is not among the sources, so the options are a parameter.
\<close>

record select =
  options :: "string list"
  sel_value :: string

definition setValue :: "string \<Rightarrow> select \<Rightarrow> select" where
  "setValue v sel = sel\<lparr>sel_value := (if v \<in> set (options sel) then v else [])\<rparr>"

record popup =
  sendSelect :: select
  newlineSelect :: select

datatype control = SendControl | NewlineControl

text \<open>background.js, lines 56-57: the ids of the two controls.\<close>

fun control_id :: "control \<Rightarrow> string" where
  "control_id SendControl = ''send-action''"
| "control_id NewlineControl = ''newline-action''"

text \<open>background.js, lines 115-129.\<close>

definition handleDuplicateKeys :: "string \<Rightarrow> string \<Rightarrow> popup \<Rightarrow> popup" where
  "handleDuplicateKeys changedSelect newValue p =
     (let otherIsNewline = (changedSelect = ''send-action'');
          otherValue = (if otherIsNewline then sel_value (newlineSelect p)
                        else sel_value (sendSelect p))
      in if otherValue = newValue then
           (let currentValues = [sel_value (sendSelect p), sel_value (newlineSelect p)] in
            case find (\<lambda>option. option \<notin> set currentValues) availableOptions of
              Some unusedOption \<Rightarrow>
                (if \<not> falsy unusedOption then
                   (if otherIsNewline
                    then p\<lparr>newlineSelect := setValue unusedOption (newlineSelect p)\<rparr>
                    else p\<lparr>sendSelect := setValue unusedOption (sendSelect p)\<rparr>)
                 else p)
            | None \<Rightarrow> p)
         else p)"

text \<open>
  background.js, lines 79-108: the store after \<^verbatim>\<open>saveSettings\<close>, and the messages it
  sent, one to each tab that the query returned. A failure of \<^verbatim>\<open>set\<close> or of the query
  ends the function; a tab that does not answer is skipped.
\<close>

definition saveSettings ::
    "bool \<Rightarrow> nat list option \<Rightarrow> settings \<Rightarrow> store \<Rightarrow> store \<times> (nat \<times> message) list" where
  "saveSettings setOk tabs s sto =
     (case storage_set setOk s sto of
        Inl err \<Rightarrow> (sto, [])
      | Inr sto' \<Rightarrow>
          (case tabs of
             None \<Rightarrow> (sto', [])
           | Some ts \<Rightarrow>
               (sto', map (\<lambda>t. (t, \<lparr>msg_type = ''SETTINGS_UPDATED'', msg_settings = s\<rparr>)) ts)))"

text \<open>
  background.js, lines 135-150: the popup after the handler, and the settings that it
  hands to \<^verbatim>\<open>saveSettings\<close>.
\<close>

definition handleSettingChange :: "control \<Rightarrow> popup \<Rightarrow> popup \<times> settings" where
  "handleSettingChange target p =
     (let changedSelect = control_id target;
          newValue = (case target of
                        SendControl \<Rightarrow> sel_value (sendSelect p)
                      | NewlineControl \<Rightarrow> sel_value (newlineSelect p));
          p' = handleDuplicateKeys changedSelect newValue p;
          newSettings = \<lparr>sendAction = sel_value (sendSelect p'),
                         newlineAction = sel_value (newlineSelect p')\<rparr>
      in (p', newSettings))"

text \<open>
  The user picks the option \<open>v\<close> in a control: the browser sets the control's value, then
  fires the change event (background.js, lines 153-154).
\<close>

definition userChange :: "control \<Rightarrow> string \<Rightarrow> popup \<Rightarrow> popup \<times> settings" where
  "userChange target v p =
     handleSettingChange target
       (case target of
          SendControl \<Rightarrow> p\<lparr>sendSelect := setValue v (sendSelect p)\<rparr>
        | NewlineControl \<Rightarrow> p\<lparr>newlineSelect := setValue v (newlineSelect p)\<rparr>)"

section \<open>The classification is an exact test of the modifiers\<close>

lemma isKeyMatch_functional:
  "isKeyMatch event a \<Longrightarrow> isKeyMatch event b \<Longrightarrow> a = b"
  by (auto simp: isKeyMatch_def split: if_splits)

lemma isKeyMatch2_functional:
  "isKeyMatch2 event a \<Longrightarrow> isKeyMatch2 event b \<Longrightarrow> a = b"
  by (auto simp: isKeyMatch2_def split: if_splits)

lemma isKeyMatch_key: "isKeyMatch event a \<Longrightarrow> key event = ''Enter''"
  by (auto simp: isKeyMatch_def split: if_splits)

lemma isKeyMatch2_key: "isKeyMatch2 event a \<Longrightarrow> key event = ''Enter''"
  by (auto simp: isKeyMatch2_def split: if_splits)

text \<open>
  The second copy of the classifier is written for three chords (its comment lists Enter,
  Shift+Enter and Alt+Enter): on them it is the same exact test; it never matches
  Ctrl+Enter.
\<close>

lemma isKeyMatch2_exact_bitset:
  "(action \<in> {''Enter'', ''Shift+Enter'', ''Alt+Enter''} \<longrightarrow>
      isKeyMatch2 event action =
        (key event = ''Enter'' \<and> Some (modifierBits event) = chordBits action))
   \<and> \<not> isKeyMatch2 event ''Ctrl+Enter''"
  by (auto simp: isKeyMatch2_def modifierBits_def chordBits_def)

lemma keyHandler2_no_match:
  "\<not> isKeyMatch2 event (newlineAction cs) \<Longrightarrow> \<not> isKeyMatch2 event (sendAction cs) \<Longrightarrow>
     keyHandler2 cs pg event = []"
  by (simp add: keyHandler2_def remapTail2_def)

lemma isKeyMatch2_meta: "metaKey event \<Longrightarrow> \<not> isKeyMatch2 event a"
  by (simp add: isKeyMatch2_def)

text \<open>
  C1 as stated fails on content.js, whose handler reads the key, shift and alt only: an
  Enter press with Meta held is suppressed and sent again as Shift+Enter, not passed
  through. In the second copy a Ctrl+Enter press has the bitset of the chord Ctrl+Enter
  and is not matched against it.
\<close>

theorem enter_with_meta_intercepted_counterexample:
  "enterKeyHandler \<lparr>key = ''Enter'', code = ''Enter'', keyCode = 13, shiftKey = False, altKey = False,
        ctrlKey = False, metaKey = True, bubbles = True, cancelable = True, composed = True\<rparr>
     = [PreventDefault, StopImmediatePropagation, DispatchEvent fakeShiftEnterEvent]
   \<and> chordBits ''Ctrl+Enter'' =
       Some (modifierBits \<lparr>key = ''Enter'', code = ''Enter'', keyCode = 13, shiftKey = False,
          altKey = False, ctrlKey = True, metaKey = False, bubbles = True, cancelable = True,
          composed = True\<rparr>)
   \<and> \<not> isKeyMatch2 \<lparr>key = ''Enter'', code = ''Enter'', keyCode = 13, shiftKey = False,
          altKey = False, ctrlKey = True, metaKey = False, bubbles = True, cancelable = True,
          composed = True\<rparr> ''Ctrl+Enter''"
  by (simp add: enterKeyHandler_def chordBits_def modifierBits_def isKeyMatch2_def)

text \<open>
  C1, amended. For every keyboard event and every chord of the canonical list, the
  classifier of the first copy matches the event against the chord if and only if the
  key of the event is Enter and its modifier bitset (shift, alt, ctrl, meta) equals the
  bitset of the chord; an Enter press with Meta held matches no chord, and an event that
  matches neither configured chord leaves the handler without any call and with the
  flag as it was. The classifier of the second copy is the same exact test on Enter,
  Shift+Enter and Alt+Enter and never matches Ctrl+Enter; its handler too makes no call
  when Meta is held or neither configured chord matches. The handler of content.js has
  no chord to configure: it acts exactly on the Enter presses with shift and alt up,
  whatever ctrl and meta are, and suppresses them and dispatches a synthetic
  Shift+Enter.
\<close>

theorem isKeyMatch_exact_bitset:
  "(action \<in> set availableOptions \<longrightarrow>
      isKeyMatch event action =
        (key event = ''Enter'' \<and> Some (modifierBits event) = chordBits action))
   \<and> (metaKey event \<longrightarrow> \<not> isKeyMatch event action)
   \<and> (metaKey event \<longrightarrow> keyHandler cs processing pg event = passThrough processing)
   \<and> (\<not> isKeyMatch event (newlineAction cs) \<and> \<not> isKeyMatch event (sendAction cs) \<longrightarrow>
        keyHandler cs processing pg event = passThrough processing)
   \<and> (action \<in> {''Enter'', ''Shift+Enter'', ''Alt+Enter''} \<longrightarrow>
        isKeyMatch2 event action =
          (key event = ''Enter'' \<and> Some (modifierBits event) = chordBits action))
   \<and> \<not> isKeyMatch2 event ''Ctrl+Enter''
   \<and> (metaKey event \<longrightarrow> \<not> isKeyMatch2 event action \<and> keyHandler2 cs pg event = [])
   \<and> (\<not> isKeyMatch2 event (newlineAction cs) \<and> \<not> isKeyMatch2 event (sendAction cs) \<longrightarrow>
        keyHandler2 cs pg event = [])
   \<and> (enterKeyHandler event \<noteq> []) = (key event = ''Enter'' \<and> \<not> shiftKey event \<and> \<not> altKey event)
   \<and> enterKeyHandler (event\<lparr>ctrlKey := c, metaKey := m\<rparr>) = enterKeyHandler event
   \<and> (key event = ''Enter'' \<and> \<not> shiftKey event \<and> \<not> altKey event \<longrightarrow>
        enterKeyHandler event =
          [PreventDefault, StopImmediatePropagation, DispatchEvent fakeShiftEnterEvent])"
proof -
  have bits: "action \<in> set availableOptions \<longrightarrow>
      isKeyMatch event action =
        (key event = ''Enter'' \<and> Some (modifierBits event) = chordBits action)"
    by (auto simp: availableOptions_def isKeyMatch_def modifierBits_def chordBits_def)
  have meta: "metaKey event \<Longrightarrow> \<not> isKeyMatch event a" for a
    by (simp add: isKeyMatch_def)
  have nomatch: "\<not> isKeyMatch event (newlineAction cs) \<Longrightarrow> \<not> isKeyMatch event (sendAction cs) \<Longrightarrow>
        keyHandler cs processing pg event = passThrough processing"
    by (simp add: keyHandler_def convertNewline_def)
  have first: "(action \<in> set availableOptions \<longrightarrow>
      isKeyMatch event action =
        (key event = ''Enter'' \<and> Some (modifierBits event) = chordBits action))
   \<and> (metaKey event \<longrightarrow> \<not> isKeyMatch event action)
   \<and> (metaKey event \<longrightarrow> keyHandler cs processing pg event = passThrough processing)
   \<and> (\<not> isKeyMatch event (newlineAction cs) \<and> \<not> isKeyMatch event (sendAction cs) \<longrightarrow>
        keyHandler cs processing pg event = passThrough processing)"
    using bits meta nomatch by blast
  have second: "(action \<in> {''Enter'', ''Shift+Enter'', ''Alt+Enter''} \<longrightarrow>
        isKeyMatch2 event action =
          (key event = ''Enter'' \<and> Some (modifierBits event) = chordBits action))
   \<and> \<not> isKeyMatch2 event ''Ctrl+Enter''
   \<and> (metaKey event \<longrightarrow> \<not> isKeyMatch2 event action \<and> keyHandler2 cs pg event = [])
   \<and> (\<not> isKeyMatch2 event (newlineAction cs) \<and> \<not> isKeyMatch2 event (sendAction cs) \<longrightarrow>
        keyHandler2 cs pg event = [])"
    using isKeyMatch2_exact_bitset [of action event] isKeyMatch2_meta [of event]
      keyHandler2_no_match [of event cs pg]
    by blast
  have third: "(enterKeyHandler event \<noteq> []) = (key event = ''Enter'' \<and> \<not> shiftKey event \<and> \<not> altKey event)
   \<and> enterKeyHandler (event\<lparr>ctrlKey := c, metaKey := m\<rparr>) = enterKeyHandler event
   \<and> (key event = ''Enter'' \<and> \<not> shiftKey event \<and> \<not> altKey event \<longrightarrow>
        enterKeyHandler event =
          [PreventDefault, StopImmediatePropagation, DispatchEvent fakeShiftEnterEvent])"
    by (simp add: enterKeyHandler_def)
  from first second third show ?thesis by (intro conjI) blast+
qed

text \<open>
  C1 amended, at an Enter press with Meta held, under the settings send = Alt+Enter,
  newline = Enter.
\<close>

theorem isKeyMatch_exact_bitset_witness:
  "\<not> isKeyMatch \<lparr>key = ''Enter'', code = ''Enter'', keyCode = 13, shiftKey = False, altKey = False,
        ctrlKey = False, metaKey = True, bubbles = True, cancelable = True, composed = True\<rparr> ''Enter''
   \<and> keyHandler \<lparr>sendAction = ''Alt+Enter'', newlineAction = ''Enter''\<rparr> False
        \<lparr>byTestId = None, byAriaLabel = None, byStructure = None\<rparr>
        \<lparr>key = ''Enter'', code = ''Enter'', keyCode = 13, shiftKey = False, altKey = False,
         ctrlKey = False, metaKey = True, bubbles = True, cancelable = True, composed = True\<rparr>
      = passThrough False
   \<and> keyHandler2 \<lparr>sendAction = ''Alt+Enter'', newlineAction = ''Enter''\<rparr>
        \<lparr>byTestId = None, byAriaLabel = None, byStructure = None\<rparr>
        \<lparr>key = ''Enter'', code = ''Enter'', keyCode = 13, shiftKey = False, altKey = False,
         ctrlKey = False, metaKey = True, bubbles = True, cancelable = True, composed = True\<rparr>
      = []
   \<and> enterKeyHandler
        \<lparr>key = ''Enter'', code = ''Enter'', keyCode = 13, shiftKey = False, altKey = False,
         ctrlKey = False, metaKey = True, bubbles = True, cancelable = True, composed = True\<rparr>
      = [PreventDefault, StopImmediatePropagation, DispatchEvent fakeShiftEnterEvent]"
  using isKeyMatch_exact_bitset [where action = "''Enter''"
      and event = "\<lparr>key = ''Enter'', code = ''Enter'', keyCode = 13, shiftKey = False, altKey = False,
        ctrlKey = False, metaKey = True, bubbles = True, cancelable = True, composed = True\<rparr>"
      and cs = "\<lparr>sendAction = ''Alt+Enter'', newlineAction = ''Enter''\<rparr>" and processing = False
      and pg = "\<lparr>byTestId = None, byAriaLabel = None, byStructure = None\<rparr>"
      and c = False and m = True]
  by (simp add: availableOptions_def modifierBits_def chordBits_def)

section \<open>The native mapping\<close>

text \<open>
  C2. When the settings are the host page's own mapping (send = Enter, newline =
  Shift+Enter), the handler makes no call at all on any keyboard event: no
  \<^verbatim>\<open>preventDefault\<close>, no \<^verbatim>\<open>stopImmediatePropagation\<close>, no timer, no click; the
  flag stays as it was. The same holds for the handler of the second copy.
\<close>

theorem native_mapping_transparent:
  "keyHandler DEFAULT_SETTINGS processing pg event = passThrough processing
   \<and> effects (keyHandler DEFAULT_SETTINGS processing pg event) = []
   \<and> keyHandler2 DEFAULT_SETTINGS pg event = []"
  by (simp add: keyHandler_def keyHandler2_def DEFAULT_SETTINGS_def passThrough_def
      convertNewline_def remapTail2_def)

section \<open>The send chord\<close>

text \<open>
  C3 as stated fails on the first copy: with send = Alt+Enter, newline = Enter and no
  send control on the page, an Alt+Enter press is suppressed and nothing else happens;
  no synthetic event is scheduled.
\<close>

theorem send_fallback_counterexample:
  "isKeyMatch \<lparr>key = ''Enter'', code = ''Enter'', keyCode = 13, shiftKey = False, altKey = True,
        ctrlKey = False, metaKey = False, bubbles = True, cancelable = True, composed = True\<rparr> ''Alt+Enter''
   \<and> findSendButton \<lparr>byTestId = None, byAriaLabel = None, byStructure = None\<rparr> = None
   \<and> keyHandler \<lparr>sendAction = ''Alt+Enter'', newlineAction = ''Enter''\<rparr> False
        \<lparr>byTestId = None, byAriaLabel = None, byStructure = None\<rparr>
        \<lparr>key = ''Enter'', code = ''Enter'', keyCode = 13, shiftKey = False, altKey = True,
         ctrlKey = False, metaKey = False, bubbles = True, cancelable = True, composed = True\<rparr>
      = \<lparr>effects = [PreventDefault, StopImmediatePropagation], guardFlag = False\<rparr>"
  by (simp add: isKeyMatch_def findSendButton_def keyHandler_def clickIfEnabled_def)

text \<open>
  A chord whose bitset is that of the event is matched by the first copy; by the second
  copy too, unless the chord is Ctrl+Enter, for which it has no case.
\<close>

lemma chordBits_isKeyMatch:
  "chordBits a = Some (modifierBits event) \<Longrightarrow> key event = ''Enter'' \<Longrightarrow> isKeyMatch event a"
  by (auto simp: chordBits_def modifierBits_def isKeyMatch_def split: if_splits)

lemma chordBits_isKeyMatch2:
  "chordBits a = Some (modifierBits event) \<Longrightarrow> key event = ''Enter'' \<Longrightarrow> a \<noteq> ''Ctrl+Enter''
     \<Longrightarrow> isKeyMatch2 event a"
  by (auto simp: chordBits_def modifierBits_def isKeyMatch2_def split: if_splits)

lemma ctrl_chord_unmatched2:
  "chordBits ''Ctrl+Enter'' = Some (modifierBits event) \<Longrightarrow> \<not> isKeyMatch2 event a"
  by (auto simp: chordBits_def modifierBits_def isKeyMatch2_def split: if_splits)

text \<open>
  C3, amended. For every Enter press whose modifier bitset is that of the configured
  send chord, the send chord being neither plain Enter nor the newline chord: the
  handler of the first copy (flag down) suppresses the event and clicks the send control
  when the selector list finds one that is enabled, and does nothing more otherwise.
  The handler of the second copy, when the send chord is Shift+Enter or Alt+Enter,
  suppresses the event and clicks the control when one is found and enabled, and
  otherwise schedules a synthetic plain-Enter event on the same target; when the send
  chord is Ctrl+Enter, which its classifier does not know, it makes no call.
\<close>

theorem send_action_click_or_fallback:
  "(key event = ''Enter'' \<and> chordBits (sendAction cs) = Some (modifierBits event)
      \<and> sendAction cs \<noteq> newlineAction cs \<and> sendAction cs \<noteq> ''Enter'' \<longrightarrow>
      keyHandler cs False pg event =
        \<lparr>effects = [PreventDefault, StopImmediatePropagation] @ clickIfEnabled (findSendButton pg),
         guardFlag = False\<rparr>
      \<and> (sendAction cs \<noteq> ''Ctrl+Enter'' \<longrightarrow>
           keyHandler2 cs pg event =
             [PreventDefault, StopImmediatePropagation]
             @ (if clickIfEnabled (findSendButton pg) = []
                then [SetTimeout 10 (DispatchFake ''Enter'')]
                else clickIfEnabled (findSendButton pg)))
      \<and> (sendAction cs = ''Ctrl+Enter'' \<longrightarrow> keyHandler2 cs pg event = []))
   \<and> (clickIfEnabled (findSendButton pg) =
        (case findSendButton pg of
           Some b \<Rightarrow> if disabled b then [] else [Click b]
         | None \<Rightarrow> []))
   \<and> key (createFakeEvent2 ''Enter'') = ''Enter''
   \<and> modifierBits (createFakeEvent2 ''Enter'') = (False, False, False, False)"
proof -
  have first: "keyHandler cs False pg event =
        \<lparr>effects = [PreventDefault, StopImmediatePropagation] @ clickIfEnabled (findSendButton pg),
         guardFlag = False\<rparr>"
    if k: "key event = ''Enter''" and b: "chordBits (sendAction cs) = Some (modifierBits event)"
      and d: "sendAction cs \<noteq> newlineAction cs" and n: "sendAction cs \<noteq> ''Enter''"
  proof -
    have m: "isKeyMatch event (sendAction cs)"
      by (rule chordBits_isKeyMatch [OF b k])
    with d have "\<not> isKeyMatch event (newlineAction cs)"
      using isKeyMatch_functional by blast
    with m n k show ?thesis
      by (simp add: keyHandler_def)
  qed
  have second: "keyHandler2 cs pg event =
        [PreventDefault, StopImmediatePropagation]
        @ (if clickIfEnabled (findSendButton pg) = []
           then [SetTimeout 10 (DispatchFake ''Enter'')]
           else clickIfEnabled (findSendButton pg))"
    if k: "key event = ''Enter''" and b: "chordBits (sendAction cs) = Some (modifierBits event)"
      and d: "sendAction cs \<noteq> newlineAction cs" and n: "sendAction cs \<noteq> ''Enter''"
      and c: "sendAction cs \<noteq> ''Ctrl+Enter''"
  proof -
    have m: "isKeyMatch2 event (sendAction cs)"
      by (rule chordBits_isKeyMatch2 [OF b k c])
    with d have "\<not> isKeyMatch2 event (newlineAction cs)"
      using isKeyMatch2_functional by blast
    with m n k show ?thesis
      by (simp add: keyHandler2_def remapTail2_def clickIfEnabled_def split: option.splits)
  qed
  have ctrl: "keyHandler2 cs pg event = []"
    if b: "chordBits (sendAction cs) = Some (modifierBits event)"
      and c: "sendAction cs = ''Ctrl+Enter''"
  proof -
    from b c have "\<not> isKeyMatch2 event a" for a
      using ctrl_chord_unmatched2 by simp
    then show ?thesis
      by (simp add: keyHandler2_def remapTail2_def)
  qed
  have third: "clickIfEnabled (findSendButton pg) =
        (case findSendButton pg of
           Some b \<Rightarrow> if disabled b then [] else [Click b]
         | None \<Rightarrow> [])"
    by (simp add: clickIfEnabled_def split: option.splits)
  have fourth: "key (createFakeEvent2 ''Enter'') = ''Enter''
      \<and> modifierBits (createFakeEvent2 ''Enter'') = (False, False, False, False)"
    by (simp add: createFakeEvent2_def modifierBits_def)
  from first second ctrl third fourth show ?thesis by blast
qed

text \<open>
  C3 amended, at an Alt+Enter press with an enabled control found by the second selector,
  and at a Ctrl+Enter press with no control on the page.
\<close>

theorem send_action_click_or_fallback_witness:
  "keyHandler \<lparr>sendAction = ''Alt+Enter'', newlineAction = ''Enter''\<rparr> False
        \<lparr>byTestId = None, byAriaLabel = Some \<lparr>button_id = 1, disabled = False\<rparr>, byStructure = None\<rparr>
        \<lparr>key = ''Enter'', code = ''Enter'', keyCode = 13, shiftKey = False, altKey = True,
         ctrlKey = False, metaKey = False, bubbles = True, cancelable = True, composed = True\<rparr>
      = \<lparr>effects = [PreventDefault, StopImmediatePropagation,
                    Click \<lparr>button_id = 1, disabled = False\<rparr>], guardFlag = False\<rparr>
   \<and> keyHandler2 \<lparr>sendAction = ''Alt+Enter'', newlineAction = ''Enter''\<rparr>
        \<lparr>byTestId = None, byAriaLabel = Some \<lparr>button_id = 1, disabled = False\<rparr>, byStructure = None\<rparr>
        \<lparr>key = ''Enter'', code = ''Enter'', keyCode = 13, shiftKey = False, altKey = True,
         ctrlKey = False, metaKey = False, bubbles = True, cancelable = True, composed = True\<rparr>
      = [PreventDefault, StopImmediatePropagation, Click \<lparr>button_id = 1, disabled = False\<rparr>]
   \<and> keyHandler \<lparr>sendAction = ''Ctrl+Enter'', newlineAction = ''Enter''\<rparr> False
        \<lparr>byTestId = None, byAriaLabel = None, byStructure = None\<rparr>
        \<lparr>key = ''Enter'', code = ''Enter'', keyCode = 13, shiftKey = False, altKey = False,
         ctrlKey = True, metaKey = False, bubbles = True, cancelable = True, composed = True\<rparr>
      = \<lparr>effects = [PreventDefault, StopImmediatePropagation], guardFlag = False\<rparr>
   \<and> keyHandler2 \<lparr>sendAction = ''Ctrl+Enter'', newlineAction = ''Enter''\<rparr>
        \<lparr>byTestId = None, byAriaLabel = None, byStructure = None\<rparr>
        \<lparr>key = ''Enter'', code = ''Enter'', keyCode = 13, shiftKey = False, altKey = False,
         ctrlKey = True, metaKey = False, bubbles = True, cancelable = True, composed = True\<rparr>
      = []"
  using send_action_click_or_fallback [where
      event = "\<lparr>key = ''Enter'', code = ''Enter'', keyCode = 13, shiftKey = False, altKey = True,
        ctrlKey = False, metaKey = False, bubbles = True, cancelable = True, composed = True\<rparr>"
      and cs = "\<lparr>sendAction = ''Alt+Enter'', newlineAction = ''Enter''\<rparr>"
      and pg = "\<lparr>byTestId = None, byAriaLabel = Some \<lparr>button_id = 1, disabled = False\<rparr>, byStructure = None\<rparr>"]
    send_action_click_or_fallback [where
      event = "\<lparr>key = ''Enter'', code = ''Enter'', keyCode = 13, shiftKey = False, altKey = False,
        ctrlKey = True, metaKey = False, bubbles = True, cancelable = True, composed = True\<rparr>"
      and cs = "\<lparr>sendAction = ''Ctrl+Enter'', newlineAction = ''Enter''\<rparr>"
      and pg = "\<lparr>byTestId = None, byAriaLabel = None, byStructure = None\<rparr>"]
  by (simp add: chordBits_def modifierBits_def findSendButton_def clickIfEnabled_def)

section \<open>The tie-break\<close>

text \<open>
  C8. For every event that matches both the configured newline chord and the configured
  send chord, the handler does what the newline chord asks for (nothing when the chord
  is the native one or the flag is up, else suppress and schedule a synthetic
  Shift+Enter) and its result does not depend on the send setting: the send branch is
  not reached. The same holds for the second copy.
\<close>

theorem newline_wins_tie:
  "(isKeyMatch event (newlineAction cs) \<and> isKeyMatch event (sendAction cs) \<longrightarrow>
      keyHandler cs processing pg event =
        (if processing \<or> newlineAction cs = ''Shift+Enter'' then passThrough processing
         else \<lparr>effects = [PreventDefault, StopImmediatePropagation,
                          SetTimeout 10 (DispatchFake ''Shift+Enter'')],
               guardFlag = True\<rparr>)
      \<and> keyHandler cs processing pg event = keyHandler (cs\<lparr>sendAction := other\<rparr>) processing pg event)
   \<and> (isKeyMatch2 event (newlineAction cs) \<and> isKeyMatch2 event (sendAction cs) \<longrightarrow>
      keyHandler2 cs pg event =
        (if newlineAction cs = ''Enter''
         then [PreventDefault, StopImmediatePropagation, SetTimeout 10 (DispatchFake ''Shift+Enter'')]
         else [])
      \<and> keyHandler2 cs pg event = keyHandler2 (cs\<lparr>sendAction := other\<rparr>) pg event)"
  by (auto simp: keyHandler_def keyHandler2_def convertNewline_def remapTail2_def passThrough_def
      dest: isKeyMatch_key isKeyMatch2_key)

text \<open>C8 at a plain Enter press with both settings at Enter.\<close>

theorem newline_wins_tie_witness:
  "isKeyMatch \<lparr>key = ''Enter'', code = ''Enter'', keyCode = 13, shiftKey = False, altKey = False,
        ctrlKey = False, metaKey = False, bubbles = True, cancelable = True, composed = True\<rparr> ''Enter''
   \<and> keyHandler \<lparr>sendAction = ''Enter'', newlineAction = ''Enter''\<rparr> False
        \<lparr>byTestId = Some \<lparr>button_id = 0, disabled = False\<rparr>, byAriaLabel = None, byStructure = None\<rparr>
        \<lparr>key = ''Enter'', code = ''Enter'', keyCode = 13, shiftKey = False, altKey = False,
        ctrlKey = False, metaKey = False, bubbles = True, cancelable = True, composed = True\<rparr>
      = \<lparr>effects = [PreventDefault, StopImmediatePropagation,
                    SetTimeout 10 (DispatchFake ''Shift+Enter'')], guardFlag = True\<rparr>
   \<and> keyHandler2 \<lparr>sendAction = ''Enter'', newlineAction = ''Enter''\<rparr>
        \<lparr>byTestId = Some \<lparr>button_id = 0, disabled = False\<rparr>, byAriaLabel = None, byStructure = None\<rparr>
        \<lparr>key = ''Enter'', code = ''Enter'', keyCode = 13, shiftKey = False, altKey = False,
        ctrlKey = False, metaKey = False, bubbles = True, cancelable = True, composed = True\<rparr>
      = [PreventDefault, StopImmediatePropagation, SetTimeout 10 (DispatchFake ''Shift+Enter'')]"
  using newline_wins_tie [of
      "\<lparr>key = ''Enter'', code = ''Enter'', keyCode = 13, shiftKey = False, altKey = False,
        ctrlKey = False, metaKey = False, bubbles = True, cancelable = True, composed = True\<rparr>"
      "\<lparr>sendAction = ''Enter'', newlineAction = ''Enter''\<rparr>" False
      "\<lparr>byTestId = Some \<lparr>button_id = 0, disabled = False\<rparr>, byAriaLabel = None, byStructure = None\<rparr>"
      "''Alt+Enter''"]
  by (simp add: isKeyMatch_def isKeyMatch2_def)

section \<open>Synthetic events and the guard flag\<close>

text \<open>
  In the first copy a run that schedules a synthetic event raises the flag, and a run
  with the flag up makes no call: the cascade that an event starts has at most two
  runs, and the second one, on the synthetic event, is empty.
\<close>

lemma keyHandler_guarded: "keyHandler cs True pg e = passThrough True"
  by (simp add: keyHandler_def)

lemma keyHandler_schedules_raises_flag:
  "scheduledFake (effects (keyHandler cs processing pg e)) = Some a \<Longrightarrow>
     guardFlag (keyHandler cs processing pg e) \<and> a = ''Shift+Enter''"
  by (auto simp: keyHandler_def convertNewline_def passThrough_def clickIfEnabled_def
      split: if_splits option.splits)

lemma cascade_guarded: "cascade cs pg True e = Some ([[]], True)"
  by (subst cascade.simps) (simp add: keyHandler_guarded passThrough_def)

lemma cascade_ends:
  "cascade cs pg processing e =
     Some (if scheduledFake (effects (keyHandler cs processing pg e)) = None
           then ([effects (keyHandler cs processing pg e)], guardFlag (keyHandler cs processing pg e))
           else ([effects (keyHandler cs processing pg e), []], False))"
proof (cases "scheduledFake (effects (keyHandler cs processing pg e))")
  case None
  then show ?thesis by (subst cascade.simps) (simp add: Let_def)
next
  case (Some a)
  with keyHandler_schedules_raises_flag [OF Some] show ?thesis
    by (subst cascade.simps) (simp add: Let_def cascade_guarded)
qed

text \<open>
  C4 on the second copy, which has no flag. Under its own default settings (send =
  Alt+Enter, newline = Enter) and with no send control on the page, an Alt+Enter press
  is suppressed and a synthetic plain Enter is scheduled; the handler then runs on that
  synthetic event, suppresses it as the newline chord and schedules a synthetic
  Shift+Enter: a second round of interception.
\<close>

theorem cascade2_reintercepts_own_event:
  "cascade2 DEFAULT_SETTINGS2 \<lparr>byTestId = None, byAriaLabel = None, byStructure = None\<rparr>
      \<lparr>key = ''Enter'', code = ''Enter'', keyCode = 13, shiftKey = False, altKey = True,
       ctrlKey = False, metaKey = False, bubbles = True, cancelable = True, composed = True\<rparr>
    = Some [[PreventDefault, StopImmediatePropagation, SetTimeout 10 (DispatchFake ''Enter'')],
            [PreventDefault, StopImmediatePropagation, SetTimeout 10 (DispatchFake ''Shift+Enter'')],
            []]"
proof -
  let ?cs = "\<lparr>sendAction = ''Alt+Enter'', newlineAction = ''Enter''\<rparr>"
  let ?pg = "\<lparr>byTestId = None, byAriaLabel = None, byStructure = None\<rparr>"
  have third: "cascade2 ?cs ?pg (createFakeEvent2 ''Shift+Enter'') = Some [[]]"
    by (subst cascade2.simps)
      (simp add: keyHandler2_def isKeyMatch2_def createFakeEvent2_def remapTail2_def)
  have second: "cascade2 ?cs ?pg (createFakeEvent2 ''Enter'') =
      Some [[PreventDefault, StopImmediatePropagation, SetTimeout 10 (DispatchFake ''Shift+Enter'')], []]"
    by (subst cascade2.simps)
      (simp add: third keyHandler2_def isKeyMatch2_def createFakeEvent2_def [of "''Enter''"]
        remapTail2_def)
  show ?thesis
    unfolding DEFAULT_SETTINGS2_def
    by (subst cascade2.simps)
      (simp add: second keyHandler2_def isKeyMatch2_def remapTail2_def findSendButton_def)
qed

text \<open>
  With send = Shift+Enter, newline = Enter and no send control, the second copy answers
  each synthetic event with another one: the cascade of a plain Enter press never ends.
\<close>

lemma cascade2_never_ends:
  "cascade2 \<lparr>sendAction = ''Shift+Enter'', newlineAction = ''Enter''\<rparr>
      \<lparr>byTestId = None, byAriaLabel = None, byStructure = None\<rparr>
      \<lparr>key = ''Enter'', code = ''Enter'', keyCode = 13, shiftKey = False, altKey = False,
       ctrlKey = False, metaKey = False, bubbles = True, cancelable = True, composed = True\<rparr>
    = None"
proof -
  let ?cs = "\<lparr>sendAction = ''Shift+Enter'', newlineAction = ''Enter''\<rparr>"
  let ?pg = "\<lparr>byTestId = None, byAriaLabel = None, byStructure = None\<rparr>"
  let ?loops = "\<lambda>(cs::settings) (pg::page) (e::KeyboardEvent). cs = ?cs \<and> pg = ?pg \<and> key e = ''Enter''
      \<and> \<not> altKey e \<and> \<not> ctrlKey e \<and> \<not> metaKey e"
  have never: "\<not> ?loops cs pg e" if ends: "cascade2 cs pg e = Some y" for cs pg e y
  proof (rule cascade2.raw_induct [where P = "\<lambda>cs pg e y. \<not> ?loops cs pg e", OF _ ends])
    fix f :: "settings \<Rightarrow> page \<Rightarrow> KeyboardEvent \<Rightarrow> effect list list option"
    fix cs :: settings and pg :: page and e :: KeyboardEvent and y :: "effect list list"
    assume IH: "\<And>cs pg e y. f cs pg e = Some y \<Longrightarrow> \<not> ?loops cs pg e"
    assume body: "(case scheduledFake (keyHandler2 cs pg e) of
        None \<Rightarrow> Some [keyHandler2 cs pg e]
      | Some a \<Rightarrow> Option.bind (f cs pg (createFakeEvent2 a))
          (\<lambda>later. Some (keyHandler2 cs pg e # later))) = Some y"
    show "\<not> ?loops cs pg e"
    proof
      assume h: "?loops cs pg e"
      show False
      proof (cases "shiftKey e")
        case True
        with h have "keyHandler2 cs pg e =
            [PreventDefault, StopImmediatePropagation, SetTimeout 10 (DispatchFake ''Enter'')]"
          by (simp add: keyHandler2_def isKeyMatch2_def remapTail2_def findSendButton_def)
        with body obtain later where "f cs pg (createFakeEvent2 ''Enter'') = Some later"
          by (auto simp: bind_eq_Some_conv)
        from IH [OF this] h show False
          by (simp add: createFakeEvent2_def)
      next
        case False
        with h have "keyHandler2 cs pg e =
            [PreventDefault, StopImmediatePropagation, SetTimeout 10 (DispatchFake ''Shift+Enter'')]"
          by (simp add: keyHandler2_def isKeyMatch2_def remapTail2_def findSendButton_def)
        with body obtain later where "f cs pg (createFakeEvent2 ''Shift+Enter'') = Some later"
          by (auto simp: bind_eq_Some_conv)
        from IH [OF this] h show False
          by (simp add: createFakeEvent2_def)
      qed
    qed
  qed
  show ?thesis
  proof (rule ccontr)
    assume "cascade2 ?cs ?pg \<lparr>key = ''Enter'', code = ''Enter'', keyCode = 13, shiftKey = False,
       altKey = False, ctrlKey = False, metaKey = False, bubbles = True, cancelable = True,
       composed = True\<rparr> \<noteq> None"
    then obtain y where "cascade2 ?cs ?pg \<lparr>key = ''Enter'', code = ''Enter'', keyCode = 13,
       shiftKey = False, altKey = False, ctrlKey = False, metaKey = False, bubbles = True,
       cancelable = True, composed = True\<rparr> = Some y"
      by blast
    from never [OF this] show False by simp
  qed
qed

section \<open>The script without settings\<close>

lemma enterKeyHandler_fake: "enterKeyHandler fakeShiftEnterEvent = []"
  by (simp add: enterKeyHandler_def fakeShiftEnterEvent_def)

lemma deliver_fake: "deliver fakeShiftEnterEvent = Some []"
  by (subst deliver.simps) (simp add: enterKeyHandler_fake)

text \<open>
  C10. The handler of content.js acts only when shift and alt are both up; its synthetic
  event carries shift, so the handler makes no call on it. For every plain Enter press
  the whole cascade is the two suppressing calls and one dispatch of the synthetic
  event, and it ends; any other event starts nothing.
\<close>

theorem content_script_single_synthetic_event:
  "(enterKeyHandler e \<noteq> [] \<longrightarrow> \<not> shiftKey e \<and> \<not> altKey e)
   \<and> shiftKey fakeShiftEnterEvent
   \<and> enterKeyHandler fakeShiftEnterEvent = []
   \<and> (key e = ''Enter'' \<and> \<not> shiftKey e \<and> \<not> altKey e \<longrightarrow>
        deliver e = Some [PreventDefault, StopImmediatePropagation, DispatchEvent fakeShiftEnterEvent])
   \<and> (\<not> (key e = ''Enter'' \<and> \<not> shiftKey e \<and> \<not> altKey e) \<longrightarrow> deliver e = Some [])"
proof -
  have a: "enterKeyHandler e \<noteq> [] \<longrightarrow> \<not> shiftKey e \<and> \<not> altKey e"
    by (simp add: enterKeyHandler_def)
  have b: "shiftKey fakeShiftEnterEvent"
    by (simp add: fakeShiftEnterEvent_def)
  have c: "deliver e = Some [PreventDefault, StopImmediatePropagation, DispatchEvent fakeShiftEnterEvent]"
    if "key e = ''Enter'' \<and> \<not> shiftKey e \<and> \<not> altKey e"
    using that by (subst deliver.simps) (simp add: enterKeyHandler_def deliver_fake)
  have d: "deliver e = Some []" if "\<not> (key e = ''Enter'' \<and> \<not> shiftKey e \<and> \<not> altKey e)"
    using that by (subst deliver.simps) (auto simp add: enterKeyHandler_def)
  from a b c d enterKeyHandler_fake show ?thesis by blast
qed

text \<open>C10 at a plain Enter press.\<close>

theorem content_script_single_synthetic_event_witness:
  "deliver \<lparr>key = ''Enter'', code = ''Enter'', keyCode = 13, shiftKey = False, altKey = False,
        ctrlKey = False, metaKey = False, bubbles = True, cancelable = True, composed = True\<rparr>
     = Some [PreventDefault, StopImmediatePropagation, DispatchEvent fakeShiftEnterEvent]"
  using content_script_single_synthetic_event [of
      "\<lparr>key = ''Enter'', code = ''Enter'', keyCode = 13, shiftKey = False, altKey = False,
        ctrlKey = False, metaKey = False, bubbles = True, cancelable = True, composed = True\<rparr>"]
  by (simp add: enterKeyHandler_def)

section \<open>Reading the store\<close>

text \<open>
  C9. When the read of the store fails, \<open>loadSettings\<close> leaves the settings at the
  built-in defaults (send = Enter, newline = Shift+Enter): the state is the one that a
  successful read of an empty store, or of a store that holds the defaults, leaves, so
  every later keydown is handled in the same way.
\<close>

theorem loadSettings_read_failure_defaults:
  "currentSettings (loadSettings False sto st)
     = \<lparr>sendAction = ''Enter'', newlineAction = ''Shift+Enter''\<rparr>
   \<and> loadSettings False sto st = loadSettings True Map.empty st
   \<and> loadSettings False sto st
       = loadSettings True [''sendAction'' \<mapsto> ''Enter'', ''newlineAction'' \<mapsto> ''Shift+Enter''] st
   \<and> keydownOn (loadSettings False sto st) pg el ev
       = keydownOn (loadSettings True Map.empty st) pg el ev"
  by (simp add: loadSettings_def storage_get_def DEFAULT_SETTINGS_def)

text \<open>The second copy falls back to its own defaults, send = Alt+Enter and newline = Enter.\<close>

lemma loadSettings2_read_failure:
  "currentSettings (loadSettings2 False sto st)
     = \<lparr>sendAction = ''Alt+Enter'', newlineAction = ''Enter''\<rparr>
   \<and> loadSettings2 False sto st = loadSettings2 True Map.empty st"
  by (simp add: loadSettings2_def storage_get_def DEFAULT_SETTINGS2_def)

section \<open>Installation\<close>

text \<open>
  C7 on the code: on install with an empty store, the read returns the defaults for the
  missing keys, both values are truthy, and \<^verbatim>\<open>set\<close> is not called: the store stays
  empty.
\<close>

theorem onInstalled_fresh_store_not_written:
  "onInstalled ''install'' True True Map.empty = (Map.empty, False)"
  by (simp add: onInstalled_def storage_get_def DEFAULT_SETTINGS_def falsy_def)

text \<open>
  With both calls succeeding, the listener writes exactly when a stored value is the
  empty string; it then replaces both values by the defaults.
\<close>

lemma onInstalled_writes_iff:
  "snd (onInstalled reason True True sto) \<longleftrightarrow>
     (reason = ''install'' \<or> reason = ''update'')
     \<and> (sto ''sendAction'' = Some [] \<or> sto ''newlineAction'' = Some [])"
  by (auto simp: onInstalled_def storage_get_def storage_set_def DEFAULT_SETTINGS_def falsy_def
      split: option.splits)

section \<open>The popup keeps the two chords apart\<close>

lemma userChange_send:
  assumes "options (sendSelect p) = availableOptions" "options (newlineSelect p) = availableOptions"
    and "v \<in> set availableOptions"
  shows "userChange SendControl v p =
    (let u = (if sel_value (newlineSelect p) = v
              then (if v = ''Enter'' then ''Shift+Enter'' else ''Enter'')
              else sel_value (newlineSelect p));
         p' = p\<lparr>sendSelect := (sendSelect p)\<lparr>sel_value := v\<rparr>,
                newlineSelect := (newlineSelect p)\<lparr>sel_value := u\<rparr>\<rparr>
     in (p', \<lparr>sendAction = v, newlineAction = u\<rparr>))"
  using assms
  by (auto simp: userChange_def handleSettingChange_def handleDuplicateKeys_def setValue_def
      Let_def falsy_def availableOptions_def)

lemma userChange_newline:
  assumes "options (sendSelect p) = availableOptions" "options (newlineSelect p) = availableOptions"
    and "v \<in> set availableOptions"
  shows "userChange NewlineControl v p =
    (let u = (if sel_value (sendSelect p) = v
              then (if v = ''Enter'' then ''Shift+Enter'' else ''Enter'')
              else sel_value (sendSelect p));
         p' = p\<lparr>sendSelect := (sendSelect p)\<lparr>sel_value := u\<rparr>,
                newlineSelect := (newlineSelect p)\<lparr>sel_value := v\<rparr>\<rparr>
     in (p', \<lparr>sendAction = u, newlineAction = v\<rparr>))"
  using assms
  by (auto simp: userChange_def handleSettingChange_def handleDuplicateKeys_def setValue_def
      Let_def falsy_def availableOptions_def)

lemma first_unused: "find (\<lambda>option. option \<noteq> v) availableOptions
    = Some (if v = ''Enter'' then ''Shift+Enter'' else ''Enter'')"
  by (simp add: availableOptions_def)

text \<open>
  C5. Both controls offer the canonical list, and the user picks one of its chords in
  either control. If the other control holds the same chord, it is set to the first
  chord of the canonical list that neither control holds; otherwise it keeps its value.
  The settings handed to \<open>saveSettings\<close> are the values of the two controls after
  that, they differ, and so do the two values in the store after the write.
\<close>

theorem change_keeps_actions_distinct:
  "options (sendSelect p) = availableOptions \<and> options (newlineSelect p) = availableOptions
     \<and> v \<in> set availableOptions \<longrightarrow>
   (case userChange target v p of
      (p', saved) \<Rightarrow>
        sendAction saved \<noteq> newlineAction saved
        \<and> saved = \<lparr>sendAction = sel_value (sendSelect p'),
                    newlineAction = sel_value (newlineSelect p')\<rparr>
        \<and> (target = SendControl \<longrightarrow>
             sendAction saved = v
             \<and> (sel_value (newlineSelect p) = v \<longrightarrow>
                  find (\<lambda>option. option \<noteq> v) availableOptions = Some (newlineAction saved))
             \<and> (sel_value (newlineSelect p) \<noteq> v \<longrightarrow>
                  newlineAction saved = sel_value (newlineSelect p)))
        \<and> (target = NewlineControl \<longrightarrow>
             newlineAction saved = v
             \<and> (sel_value (sendSelect p) = v \<longrightarrow>
                  find (\<lambda>option. option \<noteq> v) availableOptions = Some (sendAction saved))
             \<and> (sel_value (sendSelect p) \<noteq> v \<longrightarrow>
                  sendAction saved = sel_value (sendSelect p)))
        \<and> fst (saveSettings True tabs saved sto) ''sendAction''
            \<noteq> fst (saveSettings True tabs saved sto) ''newlineAction'')"
proof (intro impI, elim conjE)
  assume o1: "options (sendSelect p) = availableOptions"
    and o2: "options (newlineSelect p) = availableOptions"
    and v: "v \<in> set availableOptions"
  show "case userChange target v p of
      (p', saved) \<Rightarrow>
        sendAction saved \<noteq> newlineAction saved
        \<and> saved = \<lparr>sendAction = sel_value (sendSelect p'),
                    newlineAction = sel_value (newlineSelect p')\<rparr>
        \<and> (target = SendControl \<longrightarrow>
             sendAction saved = v
             \<and> (sel_value (newlineSelect p) = v \<longrightarrow>
                  find (\<lambda>option. option \<noteq> v) availableOptions = Some (newlineAction saved))
             \<and> (sel_value (newlineSelect p) \<noteq> v \<longrightarrow>
                  newlineAction saved = sel_value (newlineSelect p)))
        \<and> (target = NewlineControl \<longrightarrow>
             newlineAction saved = v
             \<and> (sel_value (sendSelect p) = v \<longrightarrow>
                  find (\<lambda>option. option \<noteq> v) availableOptions = Some (sendAction saved))
             \<and> (sel_value (sendSelect p) \<noteq> v \<longrightarrow>
                  sendAction saved = sel_value (sendSelect p)))
        \<and> fst (saveSettings True tabs saved sto) ''sendAction''
            \<noteq> fst (saveSettings True tabs saved sto) ''newlineAction''"
  proof (cases target)
    case SendControl
    then show ?thesis
      by (simp add: userChange_send [OF o1 o2 v] first_unused Let_def saveSettings_def
          storage_set_def split: option.splits)
  next
    case NewlineControl
    then show ?thesis
      by (simp add: userChange_newline [OF o1 o2 v] first_unused Let_def saveSettings_def
          storage_set_def split: option.splits)
  qed
qed

text \<open>C5 when the send control is changed to the chord that the newline control holds.\<close>

theorem change_keeps_actions_distinct_witness:
  "options (sendSelect \<lparr>sendSelect = \<lparr>options = availableOptions, sel_value = ''Enter''\<rparr>,
                        newlineSelect = \<lparr>options = availableOptions, sel_value = ''Shift+Enter''\<rparr>\<rparr>)
     = availableOptions
   \<and> ''Shift+Enter'' \<in> set availableOptions
   \<and> snd (userChange SendControl ''Shift+Enter''
        \<lparr>sendSelect = \<lparr>options = availableOptions, sel_value = ''Enter''\<rparr>,
         newlineSelect = \<lparr>options = availableOptions, sel_value = ''Shift+Enter''\<rparr>\<rparr>)
      = \<lparr>sendAction = ''Shift+Enter'', newlineAction = ''Enter''\<rparr>"
  using change_keeps_actions_distinct [of
      "\<lparr>sendSelect = \<lparr>options = availableOptions, sel_value = ''Enter''\<rparr>,
        newlineSelect = \<lparr>options = availableOptions, sel_value = ''Shift+Enter''\<rparr>\<rparr>"
      "''Shift+Enter''" SendControl "None" "Map.empty"]
  by (simp add: availableOptions_def userChange_def handleSettingChange_def
      handleDuplicateKeys_def setValue_def falsy_def)

section \<open>Binding the editors anew\<close>

lemma recorded_mono: "recorded n el \<Longrightarrow> n \<le> m \<Longrightarrow> recorded m el"
  by (auto simp: recorded_def split: option.splits)

lemma rebind_listeners:
  assumes "recorded n el"
  shows "attachKeyHandler h (removeExistingHandler el) =
      el\<lparr>listeners := [(''keydown'', h, True)], keySwapHandler := Some h,
         keySwapAttached := Some ''true''\<rparr>"
  using assms
  by (auto simp: recorded_def attachKeyHandler_def removeExistingHandler_def
      removeEventListener_def addEventListener_def Let_def split: option.splits)

lemma attach_listeners:
  assumes "recorded n el"
  shows "attachKeyHandler h el =
      el\<lparr>listeners := [(''keydown'', h, True)], keySwapHandler := Some h,
         keySwapAttached := Some ''true''\<rparr>"
  using assms
  by (auto simp: recorded_def attachKeyHandler_def removeExistingHandler_def
      removeEventListener_def addEventListener_def Let_def split: option.splits)

lemma attach2_listeners:
  assumes "recorded n el"
  shows "attachKeyHandler2 h el =
      el\<lparr>listeners := [(''keydown'', h, True)], keySwapHandler := Some h,
         keySwapAttached := Some ''true''\<rparr>"
  using assms
  by (auto simp: recorded_def attachKeyHandler2_def removeExistingHandler2_def
      removeEventListener_def addEventListener_def Let_def split: option.splits)
lemma forEachEditor_rebind:
  assumes "list_all (recorded n) els"
    and "forEachEditor (\<lambda>h el. (attachKeyHandler h (removeExistingHandler el), True)) n els = (els', n')"
  shows "n \<le> n' \<and> length els' = length els \<and> list_all (recorded n') els'
       \<and> (\<forall>el \<in> set els'. isProseMirror el \<longrightarrow> rebound n n' el)"
  using assms
proof (induction els arbitrary: n els' n')
  case Nil
  then show ?case by simp
next
  case (Cons el els)
  show ?case
  proof (cases "isProseMirror el")
    case True
    obtain r m where r: "forEachEditor (\<lambda>h el. (attachKeyHandler h (removeExistingHandler el), True)) (Suc n) els = (r, m)"
      by (cases "forEachEditor (\<lambda>h el. (attachKeyHandler h (removeExistingHandler el), True)) (Suc n) els")
    from Cons.prems(1) have rec: "recorded n el" and rest: "list_all (recorded (Suc n)) els"
      by (auto simp: list_all_iff intro: recorded_mono)
    from Cons.IH [OF rest r]
    have ih: "Suc n \<le> m" "length r = length els" "list_all (recorded m) r"
      "\<forall>el \<in> set r. isProseMirror el \<longrightarrow> rebound (Suc n) m el"
      by auto
    from Cons.prems(2) True r
    have eq: "els' = attachKeyHandler n (removeExistingHandler el) # r" "n' = m"
      by auto
    let ?el = "attachKeyHandler n (removeExistingHandler el)"
    have el': "?el = el\<lparr>listeners := [(''keydown'', n, True)], keySwapHandler := Some n,
         keySwapAttached := Some ''true''\<rparr>"
      by (rule rebind_listeners [OF rec])
    have "recorded m ?el" using ih(1) by (simp add: el' recorded_def)
    moreover have "rebound n m ?el" using ih(1) by (simp add: el' rebound_def)
    moreover have "\<forall>el \<in> set r. isProseMirror el \<longrightarrow> rebound n m el"
      using ih(4) by (auto simp: rebound_def split: option.splits)
    ultimately show ?thesis using ih eq by simp
  next
    case False
    obtain r m where r: "forEachEditor (\<lambda>h el. (attachKeyHandler h (removeExistingHandler el), True)) n els = (r, m)"
      by (cases "forEachEditor (\<lambda>h el. (attachKeyHandler h (removeExistingHandler el), True)) n els")
    from Cons.prems(1) have rec: "recorded n el" and rest: "list_all (recorded n) els"
      by auto
    from Cons.IH [OF rest r]
    have ih: "n \<le> m" "length r = length els" "list_all (recorded m) r"
      "\<forall>el \<in> set r. isProseMirror el \<longrightarrow> rebound n m el"
      by auto
    from Cons.prems(2) False r have eq: "els' = el # r" "n' = m"
      by auto
    from rec ih(1) have "recorded m el" by (rule recorded_mono)
    with ih eq False show ?thesis by simp
  qed
qed

lemma runListeners_single:
  "runListeners cs pg ev [(''keydown'', h, c)] processing = keyHandler cs processing pg ev"
  by (simp add: Let_def passThrough_def)


lemma forEachEditor_classes:
  "forEachEditor (\<lambda>h el. (attachKeyHandler h (removeExistingHandler el), True)) n els = (els', n')
     \<Longrightarrow> map classes els' = map classes els"
proof (induction els arbitrary: n els' n')
  case Nil
  then show ?case by simp
next
  case (Cons el els)
  have c: "classes (attachKeyHandler h (removeExistingHandler el)) = classes el" for h
    by (simp add: attachKeyHandler_def removeExistingHandler_def removeEventListener_def
        addEventListener_def Let_def split: option.splits)
  from Cons.prems show ?case
    by (auto simp: c split: if_splits prod.splits dest: Cons.IH)
qed

lemma onFirstEditor_rebind2:
  "list_all (recorded n) els \<Longrightarrow>
     onFirstEditor (\<lambda>el. attachKeyHandler2 h (el\<lparr>keySwapAttached := Some ''false''\<rparr>)) els =
     onFirstEditor (\<lambda>el. el\<lparr>listeners := [(''keydown'', h, True)], keySwapHandler := Some h,
                            keySwapAttached := Some ''true''\<rparr>) els"
proof (induction els)
  case Nil
  then show ?case by simp
next
  case (Cons el els)
  from Cons.prems have "recorded n (el\<lparr>keySwapAttached := Some ''false''\<rparr>)"
    by (auto simp: recorded_def split: option.splits)
  from attach2_listeners [OF this] Cons show ?case
    by simp
qed

text \<open>
  C6 as stated fails on the second copy, which looks at the first editor only: with two
  editors in the document, the second one has no handler after the message.
\<close>

theorem second_editor_unbound_counterexample:
  "document
     (onMessage2 \<lparr>msg_type = ''SETTINGS_UPDATED'',
                  msg_settings = \<lparr>sendAction = ''Ctrl+Enter'', newlineAction = ''Enter''\<rparr>\<rparr>
        (tryAttachHandler2
           \<lparr>currentSettings = DEFAULT_SETTINGS2, isProcessingFakeEvent = False,
            document =
              [\<lparr>classes = [''ProseMirror''], listeners = [], keySwapHandler = None,
                keySwapAttached = None\<rparr>,
               \<lparr>classes = [''ProseMirror''], listeners = [], keySwapHandler = None,
                keySwapAttached = None\<rparr>],
            nextHandler = 0\<rparr>))
   = [\<lparr>classes = [''ProseMirror''], listeners = [(''keydown'', 1, True)],
       keySwapHandler = Some 1, keySwapAttached = Some ''true''\<rparr>,
      \<lparr>classes = [''ProseMirror''], listeners = [], keySwapHandler = None,
       keySwapAttached = None\<rparr>]"
  by (simp add: onMessage2_def tryAttachHandler2_def isProseMirror_def attachKeyHandler2_def
      removeExistingHandler2_def addEventListener_def removeEventListener_def Let_def)

text \<open>
  C6, amended. From a sound state, after a \<^verbatim>\<open>SETTINGS_UPDATED\<close> message: in the first
  copy the settings are those of the message, the flag is down, and every editor of the
  document has exactly one keydown listener, a closure created while the message was
  handled, so that a keydown on the editor is one run of the handler under the new
  settings; in the second copy the settings are those of the message and the first
  editor of the document, and no other element, is bound anew with exactly one listener.
\<close>

theorem settings_updated_rebinds_editors:
  "sound st \<and> msg_type msg = ''SETTINGS_UPDATED'' \<longrightarrow>
     currentSettings (onMessage msg st) = msg_settings msg
     \<and> \<not> isProcessingFakeEvent (onMessage msg st)
     \<and> sound (onMessage msg st)
     \<and> map classes (document (onMessage msg st)) = map classes (document st)
     \<and> (\<forall>el \<in> set (document (onMessage msg st)). isProseMirror el \<longrightarrow>
          rebound (nextHandler st) (nextHandler (onMessage msg st)) el
          \<and> keydownOn (onMessage msg st) pg el ev = keyHandler (msg_settings msg) False pg ev)
     \<and> currentSettings (onMessage2 msg st) = msg_settings msg
     \<and> document (onMessage2 msg st) =
         onFirstEditor
           (\<lambda>el. el\<lparr>listeners := [(''keydown'', nextHandler st, True)],
                     keySwapHandler := Some (nextHandler st),
                     keySwapAttached := Some ''true''\<rparr>)
           (document st)"
proof (intro impI, elim conjE)
  assume s: "sound st" and t: "msg_type msg = ''SETTINGS_UPDATED''"
  obtain els n where r:
    "forEachEditor (\<lambda>h el. (attachKeyHandler h (removeExistingHandler el), True))
       (nextHandler st) (document st) = (els, n)"
    by (cases "forEachEditor (\<lambda>h el. (attachKeyHandler h (removeExistingHandler el), True))
       (nextHandler st) (document st)")
  from t r have st': "onMessage msg st =
      st\<lparr>currentSettings := msg_settings msg, isProcessingFakeEvent := False,
         document := els, nextHandler := n\<rparr>"
    by (simp add: onMessage_def)
  from s have "list_all (recorded (nextHandler st)) (document st)"
    by (simp add: sound_def)
  from forEachEditor_rebind [OF this r]
  have fe: "list_all (recorded n) els"
    "\<forall>el \<in> set els. isProseMirror el \<longrightarrow> rebound (nextHandler st) n el"
    by auto
  have run: "keydownOn (onMessage msg st) pg el ev = keyHandler (msg_settings msg) False pg ev"
    if "rebound (nextHandler st) n el" for el
  proof -
    from that obtain h where "listeners el = [(''keydown'', h, True)]"
      by (auto simp: rebound_def split: option.splits)
    then show ?thesis
      by (simp add: keydownOn_def st' runListeners_single del: runListeners.simps)
  qed
  have a: "currentSettings (onMessage msg st) = msg_settings msg"
    and b: "\<not> isProcessingFakeEvent (onMessage msg st)"
    by (simp_all add: st')
  have c: "sound (onMessage msg st)"
    using fe(1) by (simp add: st' sound_def)
  have d: "map classes (document (onMessage msg st)) = map classes (document st)"
    using forEachEditor_classes [OF r] by (simp add: st')
  have e: "\<forall>el \<in> set (document (onMessage msg st)). isProseMirror el \<longrightarrow>
          rebound (nextHandler st) (nextHandler (onMessage msg st)) el
          \<and> keydownOn (onMessage msg st) pg el ev = keyHandler (msg_settings msg) False pg ev"
    using fe(2) run by (simp add: st')
  have f: "currentSettings (onMessage2 msg st) = msg_settings msg"
    using t by (simp add: onMessage2_def)
  have g: "document (onMessage2 msg st) =
         onFirstEditor
           (\<lambda>el. el\<lparr>listeners := [(''keydown'', nextHandler st, True)],
                     keySwapHandler := Some (nextHandler st),
                     keySwapAttached := Some ''true''\<rparr>)
           (document st)"
    using t s by (simp add: onMessage2_def sound_def onFirstEditor_rebind2)
  from a b c d e f g
  show "currentSettings (onMessage msg st) = msg_settings msg
     \<and> \<not> isProcessingFakeEvent (onMessage msg st)
     \<and> sound (onMessage msg st)
     \<and> map classes (document (onMessage msg st)) = map classes (document st)
     \<and> (\<forall>el \<in> set (document (onMessage msg st)). isProseMirror el \<longrightarrow>
          rebound (nextHandler st) (nextHandler (onMessage msg st)) el
          \<and> keydownOn (onMessage msg st) pg el ev = keyHandler (msg_settings msg) False pg ev)
     \<and> currentSettings (onMessage2 msg st) = msg_settings msg
     \<and> document (onMessage2 msg st) =
         onFirstEditor
           (\<lambda>el. el\<lparr>listeners := [(''keydown'', nextHandler st, True)],
                     keySwapHandler := Some (nextHandler st),
                     keySwapAttached := Some ''true''\<rparr>)
           (document st)"
    by blast
qed


text \<open>C6 amended, at a document with a bound editor, another element and a new editor.\<close>

theorem settings_updated_rebinds_editors_witness:
  "sound \<lparr>currentSettings = DEFAULT_SETTINGS, isProcessingFakeEvent = True,
          document =
            [\<lparr>classes = [''ProseMirror''], listeners = [(''keydown'', 0, True)],
              keySwapHandler = Some 0, keySwapAttached = Some ''true''\<rparr>,
             \<lparr>classes = [''sidebar''], listeners = [], keySwapHandler = None,
              keySwapAttached = None\<rparr>,
             \<lparr>classes = [''ProseMirror'', ''editor''], listeners = [], keySwapHandler = None,
              keySwapAttached = None\<rparr>],
          nextHandler = 1\<rparr>
   \<and> onMessage \<lparr>msg_type = ''SETTINGS_UPDATED'',
                 msg_settings = \<lparr>sendAction = ''Ctrl+Enter'', newlineAction = ''Enter''\<rparr>\<rparr>
        \<lparr>currentSettings = DEFAULT_SETTINGS, isProcessingFakeEvent = True,
          document =
            [\<lparr>classes = [''ProseMirror''], listeners = [(''keydown'', 0, True)],
              keySwapHandler = Some 0, keySwapAttached = Some ''true''\<rparr>,
             \<lparr>classes = [''sidebar''], listeners = [], keySwapHandler = None,
              keySwapAttached = None\<rparr>,
             \<lparr>classes = [''ProseMirror'', ''editor''], listeners = [], keySwapHandler = None,
              keySwapAttached = None\<rparr>],
          nextHandler = 1\<rparr>
      = \<lparr>currentSettings = \<lparr>sendAction = ''Ctrl+Enter'', newlineAction = ''Enter''\<rparr>,
         isProcessingFakeEvent = False,
         document =
            [\<lparr>classes = [''ProseMirror''], listeners = [(''keydown'', 1, True)],
              keySwapHandler = Some 1, keySwapAttached = Some ''true''\<rparr>,
             \<lparr>classes = [''sidebar''], listeners = [], keySwapHandler = None,
              keySwapAttached = None\<rparr>,
             \<lparr>classes = [''ProseMirror'', ''editor''], listeners = [(''keydown'', 2, True)],
              keySwapHandler = Some 2, keySwapAttached = Some ''true''\<rparr>],
         nextHandler = 3\<rparr>"
  using settings_updated_rebinds_editors [of
      "\<lparr>currentSettings = DEFAULT_SETTINGS, isProcessingFakeEvent = True,
          document =
            [\<lparr>classes = [''ProseMirror''], listeners = [(''keydown'', 0, True)],
              keySwapHandler = Some 0, keySwapAttached = Some ''true''\<rparr>,
             \<lparr>classes = [''sidebar''], listeners = [], keySwapHandler = None,
              keySwapAttached = None\<rparr>,
             \<lparr>classes = [''ProseMirror'', ''editor''], listeners = [], keySwapHandler = None,
              keySwapAttached = None\<rparr>],
          nextHandler = 1\<rparr>"
      "\<lparr>msg_type = ''SETTINGS_UPDATED'',
                 msg_settings = \<lparr>sendAction = ''Ctrl+Enter'', newlineAction = ''Enter''\<rparr>\<rparr>"]
  by (simp add: sound_def recorded_def onMessage_def isProseMirror_def attachKeyHandler_def
      removeExistingHandler_def addEventListener_def removeEventListener_def Let_def)

text \<open>
  Soundness is an invariant of the first copy: it holds when no element has a listener
  yet, and \<open>tryAttachHandler\<close>, \<open>loadSettings\<close> and (by the theorem above) \<open>onMessage\<close>
  keep it.
\<close>

lemma forEachEditor_sound:
  assumes step: "\<And>h el. recorded h el \<Longrightarrow> recorded (if snd (f h el) then Suc h else h) (fst (f h el))"
    and "list_all (recorded n) els"
    and "forEachEditor f n els = (els', n')"
  shows "n \<le> n' \<and> list_all (recorded n') els'"
  using assms(2,3)
proof (induction els arbitrary: n els' n')
  case Nil
  then show ?case by simp
next
  case (Cons el els)
  from Cons.prems(1) have rec: "recorded n el" and rest: "list_all (recorded n) els"
    by auto
  show ?case
  proof (cases "isProseMirror el")
    case True
    let ?m = "if snd (f n el) then Suc n else n"
    obtain r k where r: "forEachEditor f ?m els = (r, k)"
      by (cases "forEachEditor f ?m els")
    have "list_all (recorded ?m) els"
      using rest by (auto simp: list_all_iff intro: recorded_mono)
    from Cons.IH [OF this r] have ih: "?m \<le> k" "list_all (recorded k) r"
      by auto
    from Cons.prems(2) True r have eq: "els' = fst (f n el) # r" "n' = k"
      by (auto split: prod.splits)
    from step [OF rec] ih(1) have "recorded k (fst (f n el))"
      by (rule recorded_mono)
    with ih eq show ?thesis by (auto split: if_splits)
  next
    case False
    obtain r k where r: "forEachEditor f n els = (r, k)"
      by (cases "forEachEditor f n els")
    from Cons.IH [OF rest r] have ih: "n \<le> k" "list_all (recorded k) r"
      by auto
    from Cons.prems(2) False r have eq: "els' = el # r" "n' = k"
      by auto
    from rec ih(1) have "recorded k el" by (rule recorded_mono)
    with ih eq show ?thesis by simp
  qed
qed

lemma sound_tryAttachHandler: "sound st \<Longrightarrow> sound (tryAttachHandler st)"
proof -
  assume s: "sound st"
  let ?f = "\<lambda>h proseEditor.
                if keySwapAttached proseEditor = None \<or> keySwapAttached proseEditor = Some []
                   \<or> keySwapAttached proseEditor = Some ''false''
                then (attachKeyHandler h proseEditor, True)
                else (proseEditor, False)"
  obtain els n where r: "forEachEditor ?f (nextHandler st) (document st) = (els, n)"
    by (cases "forEachEditor ?f (nextHandler st) (document st)")
  have step: "recorded (if snd (?f h el) then Suc h else h) (fst (?f h el))"
    if "recorded h el" for h el
  proof (cases "snd (?f h el)")
    case True
    then show ?thesis
      by (auto simp: attach_listeners [OF that] recorded_def split: if_splits)
  next
    case False
    with that show ?thesis
      by (auto split: if_splits)
  qed
  from s have "list_all (recorded (nextHandler st)) (document st)"
    by (simp add: sound_def)
  from forEachEditor_sound [of ?f, OF step this r] r show ?thesis
    by (simp add: tryAttachHandler_def sound_def)
qed

lemma sound_fresh:
  "list_all (\<lambda>el. listeners el = [] \<and> keySwapHandler el = None) els \<Longrightarrow>
     sound \<lparr>currentSettings = cs, isProcessingFakeEvent = p, document = els, nextHandler = n\<rparr>"
  by (simp add: sound_def recorded_def list_all_iff)

lemma sound_loadSettings: "sound st \<Longrightarrow> sound (loadSettings ok sto st)"
  by (simp add: loadSettings_def sound_def storage_get_def)

end
